theory Spec2Isabelle
  imports Main
begin

section \<open>The staging stack of infra/lib/staging-stack.ts\<close>

text \<open>
  The repository declares one stack, \<^verbatim>\<open>StagingStack\<close>, whose constructor wires a
  small configuration object into the constructs of a provisioning library. The
  embedding keeps the constructor as it is written: every \<^verbatim>\<open>new X(this, id, props)\<close>
  is a value of a record holding the construct's id and the properties the source
  passes, every mutating call (\<^verbatim>\<open>addToTaskRolePolicy\<close>, \<^verbatim>\<open>addContainer\<close>,
  \<^verbatim>\<open>addPortMappings\<close>, \<^verbatim>\<open>addListener\<close>, \<^verbatim>\<open>addTargets\<close>) is a function from the
  construct to the updated construct, and the stack is the list of its child constructs
  in the order of their creation. The constructor has no \<^verbatim>\<open>throw\<close> and no early
  return of its own, so \<open>StagingStack\<close> is a total function; an exception of the library
  that leaves the constructor is an error value of \<open>StagingStack_checked\<close>.
\<close>

subsection \<open>Configuration\<close>

text \<open>
  \<^verbatim>\<open>cdk.StackProps\<close> contributes the target environment (app.ts passes one);
  \<^verbatim>\<open>StagingStackProps\<close> adds four optional fields. An omitted (undefined) field is
  \<open>None\<close>. The masks and the zone count are TypeScript numbers used as prefix lengths
  and a count; the model takes them as natural numbers.
\<close>

record Environment =
  account :: "string option"
  region :: "string option"

record StagingStackProps =
  env :: "Environment option"
  vpcCidr :: "string option"
  publicSubnetMask :: "nat option"
  privateSubnetMask :: "nat option"
  maxAzs :: "nat option"

text \<open>\<^verbatim>\<open>a ?? d\<close>: the left operand unless it is null or undefined.\<close>

definition nullish :: "'a option \<Rightarrow> 'a \<Rightarrow> 'a" where
  "nullish a d = (case a of None \<Rightarrow> d | Some x \<Rightarrow> x)"

text \<open>\<^verbatim>\<open>props?.f\<close>: undefined when \<^verbatim>\<open>props\<close> is, the field otherwise.\<close>

definition opt_chain :: "'p option \<Rightarrow> ('p \<Rightarrow> 'a option) \<Rightarrow> 'a option" where
  "opt_chain p f = (case p of None \<Rightarrow> None | Some q \<Rightarrow> f q)"

subsection \<open>Constructs\<close>

datatype SubnetType = PUBLIC | PRIVATE_WITH_NAT | PRIVATE_ISOLATED

record SubnetConfiguration =
  name :: string
  subnetType :: SubnetType
  cidrMask :: nat

text \<open>\<^verbatim>\<open>ec2.Vpc\<close>; \<open>vpc_maxAzs\<close> is the property \<^verbatim>\<open>maxAzs\<close> of the construct.\<close>

record Vpc =
  vpc_id :: string
  cidr :: string
  vpc_maxAzs :: nat
  natGateways :: nat
  subnetConfiguration :: "SubnetConfiguration list"

datatype RemovalPolicy = DESTROY | RETAIN | SNAPSHOT

record Bucket =
  bucket_id :: string
  bucketName :: string
  removalPolicy :: RemovalPolicy
  autoDeleteObjects :: bool

text \<open>
  \<^verbatim>\<open>sqs.Queue\<close>. The property \<^verbatim>\<open>deadLetterQueue\<close> holds the queue object it is bound
  to, so the type is recursive.
\<close>

datatype Queue =
  Queue (queue_id: string) (queueName: string) (deadLetterQueue: "DeadLetterQueue option")
and DeadLetterQueue =
  DeadLetterQueue (dlq_queue: Queue) (maxReceiveCount: nat)

record Cluster =
  cluster_id :: string
  cluster_vpc :: Vpc
  clusterName :: string

record PolicyStatement =
  actions :: "string list"
  resources :: "string list"

record Repository =
  repository_id :: string
  repositoryName :: string

datatype RetentionDays = ONE_DAY | THREE_DAYS | FIVE_DAYS | ONE_WEEK | TWO_WEEKS | ONE_MONTH

record AwsLogs =
  streamPrefix :: string
  logRetention :: RetentionDays

text \<open>
  Values the source reads off other constructs and that the library resolves when the
  stack is deployed: they stay symbolic, naming the construct they come from.
\<close>

datatype Attribute =
  BucketNameOf string
| QueueUrlOf string
| StackRegion
| LoadBalancerDnsNameOf string
| VpcCidrBlockOf string
| SubnetIdsOf string SubnetType

record PortMapping =
  containerPort :: nat

record ContainerDefinition =
  container_id :: string
  image :: Repository
  logging :: AwsLogs
  environment :: "(string \<times> Attribute) list"
  portMappings :: "PortMapping list"

record FargateTaskDefinition =
  taskdef_id :: string
  cpu :: nat
  memoryLimitMiB :: nat
  taskRolePolicy :: "PolicyStatement list"
  containers :: "ContainerDefinition list"

record FargateService =
  service_id :: string
  cluster :: Cluster
  taskDefinition :: FargateTaskDefinition
  desiredCount :: nat
  assignPublicIp :: bool

record Certificate =
  certificate_id :: string
  certificateArn :: string

record HealthCheck =
  path :: string
  healthyHttpCodes :: string

text \<open>The properties of \<^verbatim>\<open>addTargets\<close>: a forwarding rule of a listener.\<close>

record TargetGroup =
  targets_id :: string
  targets_port :: nat
  targets :: "FargateService list"
  healthCheck :: HealthCheck

record RedirectOptions =
  protocol :: string
  redirect_port :: string
  permanent :: bool

datatype ListenerAction = redirect RedirectOptions

record Listener =
  listener_id :: string
  listener_port :: nat
  certificates :: "Certificate list"
  listener_open :: bool
  defaultAction :: "ListenerAction option"
  targetGroups :: "TargetGroup list"

record ApplicationLoadBalancer =
  alb_id :: string
  alb_vpc :: Vpc
  internetFacing :: bool
  listeners :: "Listener list"

record CfnOutput =
  output_id :: string
  output_value :: Attribute

datatype Construct =
  VpcC Vpc
| BucketC Bucket
| QueueC Queue
| ClusterC Cluster
| TaskDefC FargateTaskDefinition
| RepositoryC Repository
| ServiceC FargateService
| AlbC ApplicationLoadBalancer
| CertificateC Certificate
| OutputC CfnOutput

text \<open>
  The stack: its id, the environment handed to \<^verbatim>\<open>super(scope, id, props)\<close>, and the
  constructs created with \<^verbatim>\<open>this\<close> as their scope, in creation order (a construct that
  the constructor mutates after creating it stands here in its final state).
\<close>

record Stack =
  stack_id :: string
  stack_env :: "Environment option"
  children :: "Construct list"

subsection \<open>The mutating calls\<close>

definition addToTaskRolePolicy :: "PolicyStatement \<Rightarrow> FargateTaskDefinition \<Rightarrow> FargateTaskDefinition" where
  "addToTaskRolePolicy statement td = td\<lparr>taskRolePolicy := taskRolePolicy td @ [statement]\<rparr>"

text \<open>
  \<^verbatim>\<open>taskDef.addContainer(id, props)\<close> returns the new container, which the task
  definition owns; the container starts with no port mapping.
\<close>

definition addContainer ::
  "string \<Rightarrow> Repository \<Rightarrow> AwsLogs \<Rightarrow> (string \<times> Attribute) list \<Rightarrow> FargateTaskDefinition
    \<Rightarrow> string \<times> FargateTaskDefinition" where
  "addContainer cid img lg envv td =
     (cid, td\<lparr>containers := containers td @
        [\<lparr>container_id = cid, image = img, logging = lg, environment = envv, portMappings = []\<rparr>]\<rparr>)"

text \<open>
  \<^verbatim>\<open>container.addPortMappings(m)\<close> mutates the container object that the task
  definition holds: the container is found in the task definition by its id.
\<close>

definition addPortMappings :: "string \<Rightarrow> PortMapping \<Rightarrow> FargateTaskDefinition \<Rightarrow> FargateTaskDefinition" where
  "addPortMappings cid m td =
     td\<lparr>containers :=
        map (\<lambda>c. if container_id c = cid then c\<lparr>portMappings := portMappings c @ [m]\<rparr> else c)
          (containers td)\<rparr>"

text \<open>\<^verbatim>\<open>alb.addListener(id, props)\<close> returns the listener, owned by the load balancer.\<close>

definition addListener ::
  "string \<Rightarrow> nat \<Rightarrow> Certificate list \<Rightarrow> bool \<Rightarrow> ListenerAction option \<Rightarrow> ApplicationLoadBalancer
    \<Rightarrow> string \<times> ApplicationLoadBalancer" where
  "addListener lid p certs opn act lb =
     (lid, lb\<lparr>listeners := listeners lb @
        [\<lparr>listener_id = lid, listener_port = p, certificates = certs, listener_open = opn,
          defaultAction = act, targetGroups = []\<rparr>]\<rparr>)"

text \<open>\<^verbatim>\<open>listener.addTargets(id, props)\<close> mutates the listener inside the load balancer.\<close>

definition addTargets :: "string \<Rightarrow> TargetGroup \<Rightarrow> ApplicationLoadBalancer \<Rightarrow> ApplicationLoadBalancer" where
  "addTargets lid tg lb =
     lb\<lparr>listeners :=
        map (\<lambda>l. if listener_id l = lid then l\<lparr>targetGroups := targetGroups l @ [tg]\<rparr> else l)
          (listeners lb)\<rparr>"

subsection \<open>The constructor\<close>

definition StagingStack :: "string \<Rightarrow> StagingStackProps option \<Rightarrow> Stack" where
  "StagingStack sid props =
    (let vpcCidr = nullish (opt_chain props StagingStackProps.vpcCidr) ''10.0.0.0/16'';
         publicSubnetMask = nullish (opt_chain props StagingStackProps.publicSubnetMask) 24;
         privateSubnetMask = nullish (opt_chain props StagingStackProps.privateSubnetMask) 24;
         maxAzs = nullish (opt_chain props StagingStackProps.maxAzs) 2;
         vpc = \<lparr>vpc_id = ''Vpc'', cidr = vpcCidr, vpc_maxAzs = maxAzs, natGateways = 1,
           subnetConfiguration =
             [\<lparr>name = ''Public'', subnetType = PUBLIC, cidrMask = publicSubnetMask\<rparr>,
              \<lparr>name = ''Private'', subnetType = PRIVATE_WITH_NAT, cidrMask = privateSubnetMask\<rparr>]\<rparr>;
         docsBucket = \<lparr>bucket_id = ''DocsBucket'', bucketName = ''lizdms-staging-docs'',
           removalPolicy = DESTROY, autoDeleteObjects = True\<rparr>;
         outputsBucket = \<lparr>bucket_id = ''OutputsBucket'', bucketName = ''lizdms-staging-outputs'',
           removalPolicy = DESTROY, autoDeleteObjects = True\<rparr>;
         dlq = Queue ''ProcessingDLQ'' ''lizdms-staging-processing-dlq'' None;
         queue = Queue ''ProcessingQueue'' ''lizdms-staging-processing''
           (Some (DeadLetterQueue dlq 3));
         cluster = \<lparr>cluster_id = ''Cluster'', cluster_vpc = vpc,
           clusterName = ''lizdms-staging-cluster''\<rparr>;
         taskDef0 = \<lparr>taskdef_id = ''TaskDef'', cpu = 256, memoryLimitMiB = 512,
           taskRolePolicy = [], containers = []\<rparr>;
         taskDef1 = addToTaskRolePolicy
           \<lparr>actions = [''s3:GetObject'', ''s3:PutObject'', ''sqs:SendMessage''],
            resources = [''*'']\<rparr> taskDef0;
         repo = \<lparr>repository_id = ''ApiRepository'', repositoryName = ''lizdms-api''\<rparr>;
         (container, taskDef2) = addContainer ''ApiContainer'' repo
           \<lparr>streamPrefix = ''lizdms'', logRetention = ONE_WEEK\<rparr>
           [(''DOCS_BUCKET'', BucketNameOf (bucket_id docsBucket)),
            (''OUTPUTS_BUCKET'', BucketNameOf (bucket_id outputsBucket)),
            (''QUEUE_URL'', QueueUrlOf (queue_id queue)),
            (''AWS_REGION'', StackRegion)] taskDef1;
         taskDef = addPortMappings container \<lparr>containerPort = 3000\<rparr> taskDef2;
         service = \<lparr>service_id = ''Service'', cluster = cluster, taskDefinition = taskDef,
           desiredCount = 1, assignPublicIp = False\<rparr>;
         alb0 = \<lparr>alb_id = ''ALB'', alb_vpc = vpc, internetFacing = True, listeners = []\<rparr>;
         certificate = \<lparr>certificate_id = ''AlbCertificate'', certificateArn =
           ''arn:aws:acm:us-east-2:502826260777:certificate/38022fb5-d579-401b-8b62-90c47bb6c2af''\<rparr>;
         (httpsListener, alb1) = addListener ''HttpsListener'' 443 [certificate] True None alb0;
         alb2 = addTargets httpsListener
           \<lparr>targets_id = ''EcsTargets'', targets_port = 80, targets = [service],
            healthCheck = \<lparr>path = ''/'', healthyHttpCodes = ''200''\<rparr>\<rparr> alb1;
         (httpRedirect, alb) = addListener ''HttpRedirect'' 80 [] True
           (Some (redirect \<lparr>protocol = ''HTTPS'', redirect_port = ''443'', permanent = True\<rparr>)) alb2
     in \<lparr>stack_id = sid, stack_env = opt_chain props StagingStackProps.env,
         children =
           [VpcC vpc, BucketC docsBucket, BucketC outputsBucket, QueueC dlq, QueueC queue,
            ClusterC cluster, TaskDefC taskDef, RepositoryC repo, ServiceC service, AlbC alb,
            CertificateC certificate,
            OutputC \<lparr>output_id = ''AlbDnsName'', output_value = LoadBalancerDnsNameOf (alb_id alb)\<rparr>,
            OutputC \<lparr>output_id = ''VpcCidr'', output_value = VpcCidrBlockOf (vpc_id vpc)\<rparr>,
            OutputC \<lparr>output_id = ''PublicSubnets'', output_value = SubnetIdsOf (vpc_id vpc) PUBLIC\<rparr>,
            OutputC \<lparr>output_id = ''PrivateSubnets'',
              output_value = SubnetIdsOf (vpc_id vpc) PRIVATE_WITH_NAT\<rparr>]\<rparr>)"

text \<open>
  bin/app.ts: the one instance the repository creates. The account is read from the
  process environment (\<^verbatim>\<open>CDK_DEFAULT_ACCOUNT\<close>), so it is a parameter; every optional
  field of the configuration is omitted.
\<close>

definition app :: "string option \<Rightarrow> Stack" where
  "app CDK_DEFAULT_ACCOUNT =
     StagingStack ''LizDmsStagingStack''
       (Some \<lparr>env = Some \<lparr>account = CDK_DEFAULT_ACCOUNT, region = Some ''us-east-2''\<rparr>,
              vpcCidr = None, publicSubnetMask = None, privateSubnetMask = None,
              maxAzs = None\<rparr>)"

subsection \<open>Reading a stack\<close>

text \<open>The constructs of one kind among the children of a stack, in creation order.\<close>

definition stack_vpcs :: "Stack \<Rightarrow> Vpc list" where
  "stack_vpcs s = [v. VpcC v \<leftarrow> children s]"

definition stack_buckets :: "Stack \<Rightarrow> Bucket list" where
  "stack_buckets s = [b. BucketC b \<leftarrow> children s]"

definition stack_queues :: "Stack \<Rightarrow> Queue list" where
  "stack_queues s = [q. QueueC q \<leftarrow> children s]"

definition stack_taskDefs :: "Stack \<Rightarrow> FargateTaskDefinition list" where
  "stack_taskDefs s = [d. TaskDefC d \<leftarrow> children s]"

definition stack_services :: "Stack \<Rightarrow> FargateService list" where
  "stack_services s = [v. ServiceC v \<leftarrow> children s]"

text \<open>The listeners of the load balancers of a stack.\<close>

definition stack_listeners :: "Stack \<Rightarrow> Listener list" where
  "stack_listeners s = concat [listeners b. AlbC b \<leftarrow> children s]"

definition listeners_on :: "nat \<Rightarrow> Stack \<Rightarrow> Listener list" where
  "listeners_on p s = filter (\<lambda>l. listener_port l = p) (stack_listeners s)"

text \<open>The forwarding rules of the listeners on a port.\<close>

definition forwarding_rules :: "nat \<Rightarrow> Stack \<Rightarrow> TargetGroup list" where
  "forwarding_rules p s = concat (map targetGroups (listeners_on p s))"

text \<open>The ports a service exposes: the port mappings of the containers of its task.\<close>

definition service_ports :: "FargateService \<Rightarrow> nat list" where
  "service_ports v =
     concat (map (\<lambda>c. map containerPort (portMappings c)) (containers (taskDefinition v)))"

text \<open>
  Modelled from the spec: the ports at which the targets of a forwarding rule receive
  the traffic it forwards. A service that is a target of a rule is registered with the
  load balancer by the library (not in the sources); in the specification the rule
  forwards to the service's port, the port its container exposes. The option
  \<^verbatim>\<open>port\<close> of \<^verbatim>\<open>addTargets\<close> is kept in \<open>targets_port\<close> as the source gives it.
\<close>

definition target_ports :: "TargetGroup \<Rightarrow> nat list" where
  "target_ports g = concat (map service_ports (targets g))"

text \<open>The dead-letter bindings of the queues of a stack.\<close>

definition dlq_bindings :: "Stack \<Rightarrow> DeadLetterQueue list" where
  "dlq_bindings s =
     concat (map (\<lambda>q. case deadLetterQueue q of None \<Rightarrow> [] | Some b \<Rightarrow> [b]) (stack_queues s))"

text \<open>
  How many times a message that starts in a queue can be moved on to a further queue:
  the length of the chain of dead-letter bindings.
\<close>

fun chain_depth :: "Queue \<Rightarrow> nat" where
  "chain_depth (Queue i n None) = 0"
| "chain_depth (Queue i n (Some (DeadLetterQueue q m))) = Suc (chain_depth q)"

text \<open>The actions and resources of the statements of the task role policies.\<close>

definition granted_actions :: "Stack \<Rightarrow> string list" where
  "granted_actions s = concat (map actions (concat (map taskRolePolicy (stack_taskDefs s))))"

definition granted_resources :: "Stack \<Rightarrow> string list" where
  "granted_resources s = concat (map resources (concat (map taskRolePolicy (stack_taskDefs s))))"

text \<open>The parameters of the resources outside the network.\<close>

record NonNetworkParameters =
  bucket_names :: "string list"
  queue_names :: "string list"
  redelivery_thresholds :: "nat list"
  task_cpu :: "nat list"
  task_memoryLimitMiB :: "nat list"
  container_ports :: "nat list"
  replica_counts :: "nat list"

definition non_network_parameters :: "Stack \<Rightarrow> NonNetworkParameters" where
  "non_network_parameters s =
     \<lparr>bucket_names = map bucketName (stack_buckets s),
      queue_names = map queueName (stack_queues s),
      redelivery_thresholds = map maxReceiveCount (dlq_bindings s),
      task_cpu = map cpu (stack_taskDefs s),
      task_memoryLimitMiB = map memoryLimitMiB (stack_taskDefs s),
      container_ports =
        concat (map (\<lambda>d. concat (map (\<lambda>c. map containerPort (portMappings c)) (containers d)))
          (stack_taskDefs s)),
      replica_counts = map desiredCount (stack_services s)\<rparr>"

text \<open>A configuration that leaves out all four optional options.\<close>

definition omits_all_options :: "StagingStackProps option \<Rightarrow> bool" where
  "omits_all_options props =
     (case props of
        None \<Rightarrow> True
      | Some p \<Rightarrow> vpcCidr p = None \<and> publicSubnetMask p = None \<and> privateSubnetMask p = None
          \<and> maxAzs p = None)"

text \<open>
  The defaults in the words of the specification, to compare the constructor with:
  address block 10.0.0.0/16, public and private subnet mask /24, 2 availability zones,
  each standing in for the option it belongs to when that option is omitted. The result
  omits no option.
\<close>

definition spec_defaults :: "StagingStackProps option \<Rightarrow> StagingStackProps" where
  "spec_defaults props =
     (case props of
        None \<Rightarrow> \<lparr>env = None, vpcCidr = Some ''10.0.0.0/16'', publicSubnetMask = Some 24,
                 privateSubnetMask = Some 24, maxAzs = Some 2\<rparr>
      | Some p \<Rightarrow>
          \<lparr>env = env p,
           vpcCidr = Some (case vpcCidr p of None \<Rightarrow> ''10.0.0.0/16'' | Some c \<Rightarrow> c),
           publicSubnetMask = Some (case publicSubnetMask p of None \<Rightarrow> 24 | Some m \<Rightarrow> m),
           privateSubnetMask = Some (case privateSubnetMask p of None \<Rightarrow> 24 | Some m \<Rightarrow> m),
           maxAzs = Some (case maxAzs p of None \<Rightarrow> 2 | Some n \<Rightarrow> n)\<rparr>)"

subsection \<open>Validation of the network\<close>

text \<open>
  \<^verbatim>\<open>new ec2.Vpc(this, 'Vpc', {...})\<close> is the one call of the constructor that receives
  the four options. The library class validates the properties it is handed and throws
  when it rejects them; the exception leaves the constructor of the stack, which builds
  nothing then. The check is the library's (not in the sources), so it is a parameter
  \<open>accepts\<close> of the constructor with its failure made a value.
\<close>

datatype error = ValidationFailure

definition StagingStack_checked ::
  "(Vpc \<Rightarrow> bool) \<Rightarrow> string \<Rightarrow> StagingStackProps option \<Rightarrow> error + Stack" where
  "StagingStack_checked accepts sid props =
     (let s = StagingStack sid props
      in if list_all accepts (stack_vpcs s) then Inr s else Inl ValidationFailure)"

text \<open>Reading a decimal numeral; \<open>None\<close> when the string is empty or has another character.\<close>

fun index_of :: "'a \<Rightarrow> 'a list \<Rightarrow> nat option" where
  "index_of x [] = None"
| "index_of x (y # ys) = (if x = y then Some 0 else map_option Suc (index_of x ys))"

definition decimal_digit :: "char \<Rightarrow> nat option" where
  "decimal_digit c = index_of c ''0123456789''"

fun decimal_from :: "nat \<Rightarrow> string \<Rightarrow> nat option" where
  "decimal_from a [] = Some a"
| "decimal_from a (c # cs) =
     (case decimal_digit c of None \<Rightarrow> None | Some d \<Rightarrow> decimal_from (10 * a + d) cs)"

definition decimal :: "string \<Rightarrow> nat option" where
  "decimal s = (if s = [] then None else decimal_from 0 s)"

text \<open>The pieces of a string between the occurrences of a separator.\<close>

fun split_on :: "char \<Rightarrow> string \<Rightarrow> string list" where
  "split_on sep [] = [[]]"
| "split_on sep (c # cs) =
     (if c = sep then [] # split_on sep cs
      else (case split_on sep cs of [] \<Rightarrow> [[c]] | w # ws \<Rightarrow> (c # w) # ws))"

definition at_most :: "nat \<Rightarrow> nat option \<Rightarrow> bool" where
  "at_most b n = (case n of None \<Rightarrow> False | Some k \<Rightarrow> k \<le> b)"

text \<open>
  Modelled from the spec: the validation of the network by the library's \<^verbatim>\<open>Vpc\<close>
  class (not in the sources). In the specification a malformed address block or mask
  produces a validation failure. An address block is well formed when it is written
  \<^verbatim>\<open>a.b.c.d/n\<close> with four decimal numbers up to 255 and a prefix length up to 32; a
  mask is well formed when it is a prefix length, up to 32.
\<close>

definition well_formed_cidr :: "string \<Rightarrow> bool" where
  "well_formed_cidr s =
     (case split_on (CHR ''/'') s of
        [a, n] \<Rightarrow>
          at_most 32 (decimal n)
          \<and> length (split_on (CHR ''.'') a) = 4
          \<and> list_all (at_most 255) (map decimal (split_on (CHR ''.'') a))
      | _ \<Rightarrow> False)"

definition well_formed_network :: "Vpc \<Rightarrow> bool" where
  "well_formed_network v =
     (well_formed_cidr (cidr v) \<and> list_all (\<lambda>c. cidrMask c \<le> 32) (subnetConfiguration v))"

subsection \<open>The subnets of the network\<close>

text \<open>
  The constructor passes the address block, the zone count, the number of NAT gateways
  and two subnet groups to \<^verbatim>\<open>ec2.Vpc\<close>. The subnets themselves are laid out by that
  class, which belongs to the provisioning library and is not among the sources.
\<close>

record Subnet =
  availabilityZone :: nat
  subnet_group :: string
  subnet_type :: SubnetType
  subnet_mask :: nat

text \<open>
  Modelled from the spec: the zones a network spreads over, which the library's
  \<^verbatim>\<open>Vpc\<close> class (not in the sources) selects. The specification counts them by the
  configured zone count.
\<close>

definition availabilityZones :: "Vpc \<Rightarrow> nat list" where
  "availabilityZones v = [0..<vpc_maxAzs v]"

text \<open>
  Modelled from the spec: the subnets the library's \<^verbatim>\<open>Vpc\<close> class (not in the sources)
  creates in one zone. In the specification each zone contributes one subnet per subnet
  group, of the group's type and mask.
\<close>

definition zone_subnets :: "Vpc \<Rightarrow> nat \<Rightarrow> Subnet list" where
  "zone_subnets v z =
     map (\<lambda>c. \<lparr>availabilityZone = z, subnet_group = name c, subnet_type = subnetType c,
                subnet_mask = cidrMask c\<rparr>) (subnetConfiguration v)"

text \<open>
  Modelled from the spec: all subnets of a network, zone by zone, and the library's
  properties \<^verbatim>\<open>publicSubnets\<close> and \<^verbatim>\<open>privateSubnets\<close> of \<^verbatim>\<open>Vpc\<close> (not in the
  sources), which select them by type.
\<close>

definition vpc_subnets :: "Vpc \<Rightarrow> Subnet list" where
  "vpc_subnets v = concat (map (zone_subnets v) (availabilityZones v))"

definition publicSubnets :: "Vpc \<Rightarrow> Subnet list" where
  "publicSubnets v = filter (\<lambda>s. subnet_type s = PUBLIC) (vpc_subnets v)"

definition privateSubnets :: "Vpc \<Rightarrow> Subnet list" where
  "privateSubnets v = filter (\<lambda>s. subnet_type s = PRIVATE_WITH_NAT) (vpc_subnets v)"

text \<open>
  Modelled from the spec: which subnet types the library (not in the sources) routes
  through the NAT gateways of the network. In the specification the private subnets
  reach the internet through the NAT egress point; a public subnet has its own route
  and an isolated one has none.
\<close>

fun routes_via_nat :: "SubnetType \<Rightarrow> bool" where
  "routes_via_nat PRIVATE_WITH_NAT = True"
| "routes_via_nat PUBLIC = False"
| "routes_via_nat PRIVATE_ISOLATED = False"

section \<open>The constructor, evaluated\<close>

lemmas constructor_defs =
  StagingStack_def Let_def addToTaskRolePolicy_def addContainer_def addPortMappings_def
  addListener_def addTargets_def

lemma nullish_simps: "nullish None d = d" "nullish (Some x) d = x"
  by (simp_all add: nullish_def)

lemma opt_chain_simps: "opt_chain None f = None" "opt_chain (Some q) f = f q"
  by (simp_all add: opt_chain_def)

text \<open>The network of the stack, for any id and any configuration.\<close>

lemma StagingStack_vpcs:
  "stack_vpcs (StagingStack sid props) =
    [\<lparr>vpc_id = ''Vpc'', cidr = nullish (opt_chain props vpcCidr) ''10.0.0.0/16'',
      vpc_maxAzs = nullish (opt_chain props maxAzs) 2, natGateways = 1,
      subnetConfiguration =
        [\<lparr>name = ''Public'', subnetType = PUBLIC,
           cidrMask = nullish (opt_chain props publicSubnetMask) 24\<rparr>,
         \<lparr>name = ''Private'', subnetType = PRIVATE_WITH_NAT,
           cidrMask = nullish (opt_chain props privateSubnetMask) 24\<rparr>]\<rparr>]"
  by (simp add: stack_vpcs_def constructor_defs)

lemma StagingStack_buckets:
  "map bucketName (stack_buckets (StagingStack sid props)) =
     [''lizdms-staging-docs'', ''lizdms-staging-outputs'']"
  by (simp add: stack_buckets_def constructor_defs)

lemma StagingStack_queues:
  "stack_queues (StagingStack sid props) =
    [Queue ''ProcessingDLQ'' ''lizdms-staging-processing-dlq'' None,
     Queue ''ProcessingQueue'' ''lizdms-staging-processing''
       (Some (DeadLetterQueue (Queue ''ProcessingDLQ'' ''lizdms-staging-processing-dlq'' None) 3))]"
  by (simp add: stack_queues_def constructor_defs)

text \<open>
  The task definition after \<^verbatim>\<open>addToTaskRolePolicy\<close>, \<^verbatim>\<open>addContainer\<close> and
  \<^verbatim>\<open>addPortMappings\<close>.
\<close>

lemma StagingStack_taskDefs:
  "stack_taskDefs (StagingStack sid props) =
    [\<lparr>taskdef_id = ''TaskDef'', cpu = 256, memoryLimitMiB = 512,
      taskRolePolicy =
        [\<lparr>actions = [''s3:GetObject'', ''s3:PutObject'', ''sqs:SendMessage''],
          resources = [''*'']\<rparr>],
      containers =
        [\<lparr>container_id = ''ApiContainer'',
          image = \<lparr>repository_id = ''ApiRepository'', repositoryName = ''lizdms-api''\<rparr>,
          logging = \<lparr>streamPrefix = ''lizdms'', logRetention = ONE_WEEK\<rparr>,
          environment =
            [(''DOCS_BUCKET'', BucketNameOf ''DocsBucket''),
             (''OUTPUTS_BUCKET'', BucketNameOf ''OutputsBucket''),
             (''QUEUE_URL'', QueueUrlOf ''ProcessingQueue''),
             (''AWS_REGION'', StackRegion)],
          portMappings = [\<lparr>containerPort = 3000\<rparr>]\<rparr>]\<rparr>]"
  by (simp add: stack_taskDefs_def constructor_defs)

lemma StagingStack_services:
  "map desiredCount (stack_services (StagingStack sid props)) = [1]"
  "map service_id (stack_services (StagingStack sid props)) = [''Service'']"
  "map assignPublicIp (stack_services (StagingStack sid props)) = [False]"
  "map taskDefinition (stack_services (StagingStack sid props)) =
     stack_taskDefs (StagingStack sid props)"
  by (simp_all add: stack_services_def stack_taskDefs_def constructor_defs)

lemma StagingStack_service_ports:
  "map service_ports (stack_services (StagingStack sid props)) = [[3000]]"
  by (simp add: stack_services_def service_ports_def constructor_defs)

text \<open>The two listeners after \<^verbatim>\<open>addListener\<close>, \<^verbatim>\<open>addTargets\<close>, \<^verbatim>\<open>addListener\<close>.\<close>

lemma StagingStack_listeners:
  "stack_listeners (StagingStack sid props) =
     [\<lparr>listener_id = ''HttpsListener'', listener_port = 443,
       certificates = [\<lparr>certificate_id = ''AlbCertificate'', certificateArn =
         ''arn:aws:acm:us-east-2:502826260777:certificate/38022fb5-d579-401b-8b62-90c47bb6c2af''\<rparr>],
       listener_open = True, defaultAction = None,
       targetGroups =
         [\<lparr>targets_id = ''EcsTargets'', targets_port = 80,
           targets = stack_services (StagingStack sid props),
           healthCheck = \<lparr>path = ''/'', healthyHttpCodes = ''200''\<rparr>\<rparr>]\<rparr>,
      \<lparr>listener_id = ''HttpRedirect'', listener_port = 80, certificates = [],
       listener_open = True,
       defaultAction =
         Some (redirect \<lparr>protocol = ''HTTPS'', redirect_port = ''443'', permanent = True\<rparr>),
       targetGroups = []\<rparr>]"
  by (simp add: stack_listeners_def stack_services_def constructor_defs)

lemma StagingStack_forwarding_rules:
  "forwarding_rules 443 (StagingStack sid props) =
     [\<lparr>targets_id = ''EcsTargets'', targets_port = 80,
       targets = stack_services (StagingStack sid props),
       healthCheck = \<lparr>path = ''/'', healthyHttpCodes = ''200''\<rparr>\<rparr>]"
  by (simp add: forwarding_rules_def listeners_on_def StagingStack_listeners)

text \<open>
  Over any list of zones, the subnets of one type number the zones times the subnet
  groups of that type.
\<close>

lemma subnets_per_type:
  "length (filter (\<lambda>s. subnet_type s = t) (concat (map (zone_subnets v) zs))) =
     length zs * length (filter (\<lambda>c. subnetType c = t) (subnetConfiguration v))"
  by (induction zs) (simp_all add: zone_subnets_def filter_map comp_def)

lemma two_zones: "[0..<2] = [0, Suc 0]"
  by (simp add: upt_rec)

lemma StagingStack_spec_defaults:
  "StagingStack sid (Some (spec_defaults props)) = StagingStack sid props"
  by (cases props)
     (simp_all add: spec_defaults_def constructor_defs nullish_def opt_chain_def
        split: option.splits)

lemma default_cidr_well_formed: "well_formed_cidr ''10.0.0.0/16''"
  by (simp add: well_formed_cidr_def decimal_def decimal_digit_def at_most_def)

section \<open>The claims\<close>

text \<open>
  C1. For every configuration (any \<^verbatim>\<open>vpcCidr\<close>, \<^verbatim>\<open>publicSubnetMask\<close>,
  \<^verbatim>\<open>privateSubnetMask\<close>, \<^verbatim>\<open>maxAzs\<close>, given or omitted), the network of the stack has
  as many public subnets as private subnets, and both numbers are the configured zone
  count: the given \<^verbatim>\<open>maxAzs\<close>, or 2 when it is omitted. The constructor contributes
  one public and one private subnet group and the zone count; the subnets per zone are
  those of the specification's network model.
\<close>

theorem subnet_counts_equal_zone_count:
  "map (\<lambda>v. length (publicSubnets v)) (stack_vpcs (StagingStack sid props)) =
     [nullish (opt_chain props maxAzs) 2]
   \<and> map (\<lambda>v. length (privateSubnets v)) (stack_vpcs (StagingStack sid props)) =
     [nullish (opt_chain props maxAzs) 2]
   \<and> map (\<lambda>v. length (availabilityZones v)) (stack_vpcs (StagingStack sid props)) =
     [nullish (opt_chain props maxAzs) 2]
   \<and> map vpc_maxAzs (stack_vpcs (StagingStack sid props)) =
     [nullish (opt_chain props maxAzs) 2]"
  by (simp add: StagingStack_vpcs publicSubnets_def privateSubnets_def vpc_subnets_def
      subnets_per_type availabilityZones_def)

text \<open>
  C2. For every id and configuration, the listener on port 443 has exactly one forwarding
  rule. Its only target is the service of the stack, so what it forwards reaches the
  port the service exposes, 3000, which is the port declared in the port mapping of the
  container of the task. The rule carries a health check given by the path \<^verbatim>\<open>/\<close> and
  the expected HTTP status code \<^verbatim>\<open>200\<close>.
\<close>

theorem https_forwarding_rule:
  "map targets (forwarding_rules 443 (StagingStack sid props)) =
       [stack_services (StagingStack sid props)]
   \<and> map (map service_id \<circ> targets) (forwarding_rules 443 (StagingStack sid props)) =
       [[''Service'']]
   \<and> map target_ports (forwarding_rules 443 (StagingStack sid props)) = [[3000]]
   \<and> map target_ports (forwarding_rules 443 (StagingStack sid props)) =
       [concat (map (\<lambda>d. concat (map (\<lambda>c. map containerPort (portMappings c)) (containers d)))
          (stack_taskDefs (StagingStack sid props)))]
   \<and> map healthCheck (forwarding_rules 443 (StagingStack sid props)) =
       [\<lparr>path = ''/'', healthyHttpCodes = ''200''\<rparr>]"
proof -
  have ports: "concat (map service_ports (stack_services (StagingStack sid props))) = [3000]"
    using StagingStack_service_ports [of sid props]
    by (cases "stack_services (StagingStack sid props)") auto
  show ?thesis
    by (simp add: StagingStack_forwarding_rules StagingStack_services target_ports_def ports
        StagingStack_taskDefs)
qed

text \<open>
  C3. When the configuration omits all four optional options (the configuration object
  itself may be omitted too), the network has the address block 10.0.0.0/16, zone count
  2, one NAT gateway, a public subnet group of mask /24 and a private subnet group of
  mask /24; in the specification's network model that is two zones, each with one /24
  public and one /24 private subnet.
\<close>

theorem default_configuration_network:
  "omits_all_options props \<Longrightarrow>
     stack_vpcs (StagingStack sid props) =
       [\<lparr>vpc_id = ''Vpc'', cidr = ''10.0.0.0/16'', vpc_maxAzs = 2, natGateways = 1,
         subnetConfiguration =
           [\<lparr>name = ''Public'', subnetType = PUBLIC, cidrMask = 24\<rparr>,
            \<lparr>name = ''Private'', subnetType = PRIVATE_WITH_NAT, cidrMask = 24\<rparr>]\<rparr>]
     \<and> map (\<lambda>v. map (zone_subnets v) (availabilityZones v))
          (stack_vpcs (StagingStack sid props)) =
       [[[\<lparr>availabilityZone = 0, subnet_group = ''Public'', subnet_type = PUBLIC,
           subnet_mask = 24\<rparr>,
          \<lparr>availabilityZone = 0, subnet_group = ''Private'', subnet_type = PRIVATE_WITH_NAT,
           subnet_mask = 24\<rparr>],
         [\<lparr>availabilityZone = 1, subnet_group = ''Public'', subnet_type = PUBLIC,
           subnet_mask = 24\<rparr>,
          \<lparr>availabilityZone = 1, subnet_group = ''Private'', subnet_type = PRIVATE_WITH_NAT,
           subnet_mask = 24\<rparr>]]]"
  by (auto simp add: omits_all_options_def StagingStack_vpcs nullish_simps opt_chain_simps
      availabilityZones_def zone_subnets_def two_zones split: option.splits)

text \<open>The instance of app.ts omits all four options and gets the default network.\<close>

theorem default_configuration_network_witness:
  "omits_all_options (Some \<lparr>env = Some \<lparr>account = None, region = Some ''us-east-2''\<rparr>,
              vpcCidr = None, publicSubnetMask = None, privateSubnetMask = None,
              maxAzs = None\<rparr>)
   \<and> stack_vpcs (app None) =
       [\<lparr>vpc_id = ''Vpc'', cidr = ''10.0.0.0/16'', vpc_maxAzs = 2, natGateways = 1,
         subnetConfiguration =
           [\<lparr>name = ''Public'', subnetType = PUBLIC, cidrMask = 24\<rparr>,
            \<lparr>name = ''Private'', subnetType = PRIVATE_WITH_NAT, cidrMask = 24\<rparr>]\<rparr>]"
proof -
  let ?p = "Some \<lparr>env = Some \<lparr>account = None, region = Some ''us-east-2''\<rparr>,
              vpcCidr = None, publicSubnetMask = None, privateSubnetMask = None,
              maxAzs = None\<rparr>"
  have h: "omits_all_options ?p"
    by (simp add: omits_all_options_def)
  show ?thesis
    using h default_configuration_network [OF h, of "''LizDmsStagingStack''"]
    by (simp add: app_def)
qed

text \<open>
  C4. For every id and configuration, the primary queue \<^verbatim>\<open>ProcessingQueue\<close> is bound
  to exactly one dead-letter queue, the queue \<^verbatim>\<open>ProcessingDLQ\<close> of the same stack, with
  the redelivery threshold 3; it is the only dead-letter binding of the stack, and its
  threshold is at least 1.
\<close>

theorem primary_queue_dead_letter_binding:
  "map deadLetterQueue
     (filter (\<lambda>q. queue_id q = ''ProcessingQueue'') (stack_queues (StagingStack sid props))) =
     [Some (DeadLetterQueue (Queue ''ProcessingDLQ'' ''lizdms-staging-processing-dlq'' None) 3)]
   \<and> map maxReceiveCount (dlq_bindings (StagingStack sid props)) = [3]
   \<and> list_all ((\<le>) 1) (map maxReceiveCount (dlq_bindings (StagingStack sid props)))
   \<and> set (map dlq_queue (dlq_bindings (StagingStack sid props))) \<subseteq>
       set (stack_queues (StagingStack sid props))"
  by (simp add: dlq_bindings_def StagingStack_queues)

text \<open>
  C5. For every id and configuration, the load balancer has exactly two listeners. One
  is on port 443 and bound to the certificate reference. The other is on port 80, has no
  certificate and no forwarding rule, and its action is a permanent redirect to HTTPS on
  port 443.
\<close>

theorem one_https_listener_one_http_redirect:
  "map listener_port (stack_listeners (StagingStack sid props)) = [443, 80]
   \<and> map listener_id (listeners_on 443 (StagingStack sid props)) = [''HttpsListener'']
   \<and> map (map certificateArn \<circ> certificates) (listeners_on 443 (StagingStack sid props)) =
       [[''arn:aws:acm:us-east-2:502826260777:certificate/38022fb5-d579-401b-8b62-90c47bb6c2af'']]
   \<and> map listener_id (listeners_on 80 (StagingStack sid props)) = [''HttpRedirect'']
   \<and> map certificates (listeners_on 80 (StagingStack sid props)) = [[]]
   \<and> map defaultAction (listeners_on 80 (StagingStack sid props)) =
       [Some (redirect \<lparr>protocol = ''HTTPS'', redirect_port = ''443'', permanent = True\<rparr>)]
   \<and> map targetGroups (listeners_on 80 (StagingStack sid props)) = [[]]"
  by (simp add: listeners_on_def StagingStack_listeners)

text \<open>
  C6. For every id and configuration, the task role policy has one statement; it grants
  the three actions \<^verbatim>\<open>s3:GetObject\<close>, \<^verbatim>\<open>s3:PutObject\<close> and \<^verbatim>\<open>sqs:SendMessage\<close>, each
  once, on the resources \<^verbatim>\<open>*\<close>, and no other action is granted.
\<close>

theorem task_policy_grants_three_actions:
  "map taskRolePolicy (stack_taskDefs (StagingStack sid props)) =
     [[\<lparr>actions = [''s3:GetObject'', ''s3:PutObject'', ''sqs:SendMessage''],
        resources = [''*'']\<rparr>]]
   \<and> granted_actions (StagingStack sid props) =
       [''s3:GetObject'', ''s3:PutObject'', ''sqs:SendMessage'']
   \<and> (\<forall>a. a \<in> set (granted_actions (StagingStack sid props)) \<longleftrightarrow>
         a = ''s3:GetObject'' \<or> a = ''s3:PutObject'' \<or> a = ''sqs:SendMessage'')
   \<and> distinct (granted_actions (StagingStack sid props))
   \<and> granted_resources (StagingStack sid props) = [''*'']"
  by (auto simp add: granted_actions_def granted_resources_def StagingStack_taskDefs)

text \<open>
  C7. For every id and configuration, hence for every zone count, the network declares
  exactly one NAT gateway. Of its subnet groups only the group \<^verbatim>\<open>Private\<close> is of a
  type routed through the NAT gateway, and of its subnets exactly the private ones,
  those of that group, are.
\<close>

theorem single_nat_gateway_for_private_subnets:
  "map natGateways (stack_vpcs (StagingStack sid props)) = [1]
   \<and> map (\<lambda>v. map name (filter (\<lambda>c. routes_via_nat (subnetType c)) (subnetConfiguration v)))
        (stack_vpcs (StagingStack sid props)) = [[''Private'']]
   \<and> (\<forall>v \<in> set (stack_vpcs (StagingStack sid props)). \<forall>s \<in> set (vpc_subnets v).
         routes_via_nat (subnet_type s) \<longleftrightarrow>
           s \<in> set (privateSubnets v) \<and> subnet_group s = ''Private'')"
  by (auto simp add: StagingStack_vpcs vpc_subnets_def privateSubnets_def zone_subnets_def)

text \<open>
  The instance of app.ts: one NAT gateway for its two zones, and of its four subnets the
  two private ones are routed through it.
\<close>

theorem single_nat_gateway_for_private_subnets_witness:
  "map natGateways (stack_vpcs (app None)) = [1]
   \<and> map vpc_subnets (stack_vpcs (app None)) =
       [[\<lparr>availabilityZone = 0, subnet_group = ''Public'', subnet_type = PUBLIC,
          subnet_mask = 24\<rparr>,
         \<lparr>availabilityZone = 0, subnet_group = ''Private'', subnet_type = PRIVATE_WITH_NAT,
          subnet_mask = 24\<rparr>,
         \<lparr>availabilityZone = 1, subnet_group = ''Public'', subnet_type = PUBLIC,
          subnet_mask = 24\<rparr>,
         \<lparr>availabilityZone = 1, subnet_group = ''Private'', subnet_type = PRIVATE_WITH_NAT,
          subnet_mask = 24\<rparr>]]
   \<and> map (map (\<lambda>s. routes_via_nat (subnet_type s)) \<circ> vpc_subnets) (stack_vpcs (app None)) =
       [[False, True, False, True]]"
  using single_nat_gateway_for_private_subnets [of "''LizDmsStagingStack''"]
  by (simp add: app_def StagingStack_vpcs vpc_subnets_def zone_subnets_def availabilityZones_def
      nullish_simps opt_chain_simps two_zones)

text \<open>
  C8, as the claim states it: construction succeeds for every configuration that omits
  some of the optional options. It fails for a configuration that omits three of them and
  gives the mask 33, and for one that omits three and gives a malformed address block:
  the network is rejected.
\<close>

theorem given_option_can_fail_validation:
  "StagingStack_checked well_formed_network ''LizDmsStagingStack''
     (Some \<lparr>env = None, vpcCidr = None, publicSubnetMask = Some 33,
            privateSubnetMask = None, maxAzs = None\<rparr>) = Inl ValidationFailure
   \<and> StagingStack_checked well_formed_network ''LizDmsStagingStack''
     (Some \<lparr>env = None, vpcCidr = Some ''10.0.0/16'', publicSubnetMask = None,
            privateSubnetMask = None, maxAzs = None\<rparr>) = Inl ValidationFailure"
  by (simp add: StagingStack_checked_def StagingStack_vpcs well_formed_network_def
      well_formed_cidr_def decimal_def decimal_digit_def at_most_def
      nullish_simps opt_chain_simps)

text \<open>
  C8, amended. Omitting an option never causes a validation failure. Whatever check the
  library applies to the network, construction from a configuration has the outcome,
  failure or the same stack, of construction from the configuration in which each
  omitted option is set to its default; it succeeds exactly when the check accepts the
  network that holds the given value of each option or, where the option is omitted, its
  default 10.0.0.0/16, /24, /24 or 2. When all four options are omitted that network is
  well formed and construction succeeds.
\<close>

theorem omitted_options_take_defaults:
  "StagingStack_checked accepts sid props =
     StagingStack_checked accepts sid (Some (spec_defaults props))
   \<and> stack_vpcs (StagingStack sid props) =
     [\<lparr>vpc_id = ''Vpc'',
       cidr = (case props of None \<Rightarrow> ''10.0.0.0/16''
               | Some p \<Rightarrow> (case vpcCidr p of None \<Rightarrow> ''10.0.0.0/16'' | Some c \<Rightarrow> c)),
       vpc_maxAzs = (case props of None \<Rightarrow> 2
               | Some p \<Rightarrow> (case maxAzs p of None \<Rightarrow> 2 | Some n \<Rightarrow> n)),
       natGateways = 1,
       subnetConfiguration =
         [\<lparr>name = ''Public'', subnetType = PUBLIC,
            cidrMask = (case props of None \<Rightarrow> 24
               | Some p \<Rightarrow> (case publicSubnetMask p of None \<Rightarrow> 24 | Some m \<Rightarrow> m))\<rparr>,
          \<lparr>name = ''Private'', subnetType = PRIVATE_WITH_NAT,
            cidrMask = (case props of None \<Rightarrow> 24
               | Some p \<Rightarrow> (case privateSubnetMask p of None \<Rightarrow> 24 | Some m \<Rightarrow> m))\<rparr>]\<rparr>]
   \<and> StagingStack_checked accepts sid props =
     (if list_all accepts (stack_vpcs (StagingStack sid props))
      then Inr (StagingStack sid props) else Inl ValidationFailure)
   \<and> StagingStack_checked well_formed_network sid None = Inr (StagingStack sid None)
   \<and> StagingStack_checked well_formed_network sid
       (Some \<lparr>env = e, vpcCidr = None, publicSubnetMask = None, privateSubnetMask = None,
              maxAzs = None\<rparr>) =
     Inr (StagingStack sid
       (Some \<lparr>env = e, vpcCidr = None, publicSubnetMask = None, privateSubnetMask = None,
              maxAzs = None\<rparr>))"
proof -
  have same: "StagingStack_checked accepts sid props =
      StagingStack_checked accepts sid (Some (spec_defaults props))"
    by (simp add: StagingStack_checked_def StagingStack_spec_defaults)
  have network: "stack_vpcs (StagingStack sid props) =
     [\<lparr>vpc_id = ''Vpc'',
       cidr = (case props of None \<Rightarrow> ''10.0.0.0/16''
               | Some p \<Rightarrow> (case vpcCidr p of None \<Rightarrow> ''10.0.0.0/16'' | Some c \<Rightarrow> c)),
       vpc_maxAzs = (case props of None \<Rightarrow> 2
               | Some p \<Rightarrow> (case maxAzs p of None \<Rightarrow> 2 | Some n \<Rightarrow> n)),
       natGateways = 1,
       subnetConfiguration =
         [\<lparr>name = ''Public'', subnetType = PUBLIC,
            cidrMask = (case props of None \<Rightarrow> 24
               | Some p \<Rightarrow> (case publicSubnetMask p of None \<Rightarrow> 24 | Some m \<Rightarrow> m))\<rparr>,
          \<lparr>name = ''Private'', subnetType = PRIVATE_WITH_NAT,
            cidrMask = (case props of None \<Rightarrow> 24
               | Some p \<Rightarrow> (case privateSubnetMask p of None \<Rightarrow> 24 | Some m \<Rightarrow> m))\<rparr>]\<rparr>]"
    by (cases props) (simp_all add: StagingStack_vpcs nullish_def opt_chain_def)
  have outcome: "StagingStack_checked accepts sid props =
     (if list_all accepts (stack_vpcs (StagingStack sid props))
      then Inr (StagingStack sid props) else Inl ValidationFailure)"
    by (simp add: StagingStack_checked_def)
  have none: "StagingStack_checked well_formed_network sid None = Inr (StagingStack sid None)"
    by (simp add: StagingStack_checked_def StagingStack_vpcs well_formed_network_def
        default_cidr_well_formed nullish_simps opt_chain_simps)
  have omitted: "StagingStack_checked well_formed_network sid
       (Some \<lparr>env = e, vpcCidr = None, publicSubnetMask = None, privateSubnetMask = None,
              maxAzs = None\<rparr>) =
     Inr (StagingStack sid
       (Some \<lparr>env = e, vpcCidr = None, publicSubnetMask = None, privateSubnetMask = None,
              maxAzs = None\<rparr>))"
    by (simp add: StagingStack_checked_def StagingStack_vpcs well_formed_network_def
        default_cidr_well_formed nullish_simps opt_chain_simps)
  from same network outcome none omitted show ?thesis
    by (intro conjI)
qed

text \<open>
  C9. For every two ids and configurations, the parameters outside the network agree,
  and they are these constants: the bucket names, the queue names, the redelivery
  threshold 3, task CPU 256 and memory 512 MiB, container port 3000 and replica count 1.
\<close>

theorem non_network_parameters_constant:
  "non_network_parameters (StagingStack sid props) =
     non_network_parameters (StagingStack sid' props')
   \<and> non_network_parameters (StagingStack sid props) =
       \<lparr>bucket_names = [''lizdms-staging-docs'', ''lizdms-staging-outputs''],
        queue_names = [''lizdms-staging-processing-dlq'', ''lizdms-staging-processing''],
        redelivery_thresholds = [3], task_cpu = [256], task_memoryLimitMiB = [512],
        container_ports = [3000], replica_counts = [1]\<rparr>"
  by (simp add: non_network_parameters_def dlq_bindings_def StagingStack_buckets
      StagingStack_queues StagingStack_taskDefs StagingStack_services)

text \<open>
  C10. For every id and configuration, the stack has exactly two queues,
  \<^verbatim>\<open>ProcessingDLQ\<close> and \<^verbatim>\<open>ProcessingQueue\<close>. The only dead-letter binding leads to
  \<^verbatim>\<open>ProcessingDLQ\<close>, which has no dead-letter binding itself: the chain of bindings has
  depth 0 from the dead-letter queue and depth 1 from the primary queue.
\<close>

theorem dead_letter_chain_depth_one:
  "length (stack_queues (StagingStack sid props)) = 2
   \<and> map queue_id (stack_queues (StagingStack sid props)) =
       [''ProcessingDLQ'', ''ProcessingQueue'']
   \<and> map (queue_id \<circ> dlq_queue) (dlq_bindings (StagingStack sid props)) = [''ProcessingDLQ'']
   \<and> map (deadLetterQueue \<circ> dlq_queue) (dlq_bindings (StagingStack sid props)) = [None]
   \<and> map chain_depth (stack_queues (StagingStack sid props)) = [0, 1]"
  by (simp add: dlq_bindings_def StagingStack_queues)

end
